theory Spec2Isabelle
  imports Main
begin

section \<open>The error taxonomy of haystack/errors.py\<close>

text \<open>
  The module defines the exception class \<open>HaystackError\<close> and fourteen subclasses.
  The model below follows the module class by class: the classes and their base lists,
  the objects (a class, an instance dictionary and the \<open>__cause__\<close> slot), the
  \<open>__init__\<close> chain with the defaults of every signature, the \<open>__getattr__\<close>
  fallback and \<open>__str__\<close>. The telemetry function \<open>send_custom_event\<close> is imported
  from another module; it is a parameter of the model.
\<close>

subsection \<open>Classes\<close>

datatype kind =
    HaystackError
  | ModelingError
  | PipelineError
  | PipelineSchemaError
  | PipelineConfigError
  | DocumentStoreError
  | FilterError
  | PineconeDocumentStoreError
  | DuplicateDocumentError
  | NodeError
  | AudioNodeError
  | OpenAIError
  | OpenAIRateLimitError
  | CohereError
  | ImageToTextError

text \<open>The classes of the module together with the built-in classes it derives from.\<close>

datatype pyclass = Taxonomy kind | Exception | ValueError | BaseException

text \<open>\<open>type(self).__name__\<close>: the name written in the class statement.\<close>

fun kind_name :: "kind \<Rightarrow> string" where
  "kind_name HaystackError = ''HaystackError''"
| "kind_name ModelingError = ''ModelingError''"
| "kind_name PipelineError = ''PipelineError''"
| "kind_name PipelineSchemaError = ''PipelineSchemaError''"
| "kind_name PipelineConfigError = ''PipelineConfigError''"
| "kind_name DocumentStoreError = ''DocumentStoreError''"
| "kind_name FilterError = ''FilterError''"
| "kind_name PineconeDocumentStoreError = ''PineconeDocumentStoreError''"
| "kind_name DuplicateDocumentError = ''DuplicateDocumentError''"
| "kind_name NodeError = ''NodeError''"
| "kind_name AudioNodeError = ''AudioNodeError''"
| "kind_name OpenAIError = ''OpenAIError''"
| "kind_name OpenAIRateLimitError = ''OpenAIRateLimitError''"
| "kind_name CohereError = ''CohereError''"
| "kind_name ImageToTextError = ''ImageToTextError''"

fun class_name :: "pyclass \<Rightarrow> string" where
  "class_name (Taxonomy k) = kind_name k"
| "class_name Exception = ''Exception''"
| "class_name ValueError = ''ValueError''"
| "class_name BaseException = ''BaseException''"

text \<open>The base list of every class statement, in the order written.\<close>

fun bases :: "pyclass \<Rightarrow> pyclass list" where
  "bases (Taxonomy HaystackError) = [Exception]"
| "bases (Taxonomy ModelingError) = [Taxonomy HaystackError]"
| "bases (Taxonomy PipelineError) = [Taxonomy HaystackError]"
| "bases (Taxonomy PipelineSchemaError) = [Taxonomy PipelineError]"
| "bases (Taxonomy PipelineConfigError) = [Taxonomy PipelineError]"
| "bases (Taxonomy DocumentStoreError) = [Taxonomy HaystackError]"
| "bases (Taxonomy FilterError) = [Taxonomy DocumentStoreError]"
| "bases (Taxonomy PineconeDocumentStoreError) = [Taxonomy DocumentStoreError]"
| "bases (Taxonomy DuplicateDocumentError) = [Taxonomy DocumentStoreError, ValueError]"
| "bases (Taxonomy NodeError) = [Taxonomy HaystackError]"
| "bases (Taxonomy AudioNodeError) = [Taxonomy NodeError]"
| "bases (Taxonomy OpenAIError) = [Taxonomy NodeError]"
| "bases (Taxonomy OpenAIRateLimitError) = [Taxonomy OpenAIError]"
| "bases (Taxonomy CohereError) = [Taxonomy NodeError]"
| "bases (Taxonomy ImageToTextError) = [Taxonomy NodeError]"
| "bases ValueError = [Exception]"
| "bases Exception = [BaseException]"
| "bases BaseException = []"

text \<open>The length of the longest chain of base classes above a class.\<close>

fun depth :: "pyclass \<Rightarrow> nat" where
  "depth BaseException = 0"
| "depth Exception = 1"
| "depth ValueError = 2"
| "depth (Taxonomy HaystackError) = 2"
| "depth (Taxonomy ModelingError) = 3"
| "depth (Taxonomy PipelineError) = 3"
| "depth (Taxonomy PipelineSchemaError) = 4"
| "depth (Taxonomy PipelineConfigError) = 4"
| "depth (Taxonomy DocumentStoreError) = 3"
| "depth (Taxonomy FilterError) = 4"
| "depth (Taxonomy PineconeDocumentStoreError) = 4"
| "depth (Taxonomy DuplicateDocumentError) = 4"
| "depth (Taxonomy NodeError) = 3"
| "depth (Taxonomy AudioNodeError) = 4"
| "depth (Taxonomy OpenAIError) = 4"
| "depth (Taxonomy OpenAIRateLimitError) = 5"
| "depth (Taxonomy CohereError) = 4"
| "depth (Taxonomy ImageToTextError) = 4"

lemma bases_depth: "b \<in> set (bases c) \<Longrightarrow> depth b < depth c"
proof (cases c)
  case (Taxonomy k)
  assume "b \<in> set (bases c)"
  with Taxonomy show ?thesis by (cases k) auto
qed auto

text \<open>
  \<open>issubclass(c, d)\<close>: \<open>d\<close> is \<open>c\<close> or is reached from \<open>c\<close> through base lists. An
  \<open>except d\<close> clause catches an instance of \<open>c\<close> exactly then.
\<close>

function issubclass :: "pyclass \<Rightarrow> pyclass \<Rightarrow> bool" where
  "issubclass c d = (c = d \<or> list_ex (\<lambda>b. issubclass b d) (bases c))"
  by pat_completeness auto
termination
  by (relation "measure (\<lambda>(c, d). depth c)") (auto simp: bases_depth)

declare issubclass.simps [simp del]

subsection \<open>Values and objects\<close>

text \<open>
  The values the module stores and passes: \<open>None\<close>, strings and integers, following the
  annotations \<open>Optional[str]\<close> and \<open>Optional[int]\<close>.
\<close>

datatype pyval = PyNone | PyStr string | PyInt int

datatype exn = AttributeError | TypeError | Raised string

text \<open>
  An exception object: its class, its instance dictionary and its \<open>__cause__\<close>, which is
  \<open>None\<close> or another exception object.
\<close>

datatype exc = Exc (cls: pyclass) (dict: "string \<rightharpoonup> pyval") (cause: "exc option")

text \<open>A parameter with a default: the caller leaves it out or passes a value.\<close>

datatype 'a arg = Omitted | Given 'a

fun arg_or :: "'a arg \<Rightarrow> 'a \<Rightarrow> 'a" where
  "arg_or Omitted d = d"
| "arg_or (Given v) d = v"

fun py_opt_str :: "string option \<Rightarrow> pyval" where
  "py_opt_str None = PyNone"
| "py_opt_str (Some s) = PyStr s"

fun py_opt_int :: "int option \<Rightarrow> pyval" where
  "py_opt_int None = PyNone"
| "py_opt_int (Some i) = PyInt i"

text \<open>Truth value testing, as \<open>if message:\<close> and \<open>if self.docs_link:\<close> do it.\<close>

fun truthy :: "pyval \<Rightarrow> bool" where
  "truthy PyNone = False"
| "truthy (PyStr s) = (s \<noteq> [])"
| "truthy (PyInt i) = (i \<noteq> 0)"

text \<open>\<open>self.name = v\<close>: no class of the module overrides \<open>__setattr__\<close>.\<close>

definition setattr :: "exc \<Rightarrow> string \<Rightarrow> pyval \<Rightarrow> exc" where
  "setattr self name v = Exc (cls self) ((dict self)(name \<mapsto> v)) (cause self)"

text \<open>\<open>raise e from c\<close> stores \<open>c\<close> in \<open>e.__cause__\<close>.\<close>

definition raise_from :: "exc \<Rightarrow> exc \<Rightarrow> exc" where
  "raise_from e c = Exc (cls e) (dict e) (Some c)"

text \<open>\<open>cls.__new__\<close>: a fresh object with an empty dictionary and no cause.\<close>

definition alloc :: "kind \<Rightarrow> exc" where
  "alloc k = Exc (Taxonomy k) Map.empty None"

subsection \<open>Telemetry\<close>

text \<open>
  \<open>send_custom_event(event=..., payload=...)\<close> lives in \<open>haystack.telemetry\<close>. The model
  takes its behaviour as a parameter: for each call it either returns (\<open>None\<close>) or raises
  (\<open>Some e\<close>). A computation returns the list of calls it made to the function, in order,
  together with its result or the exception that ended it.
\<close>

type_synonym payload = "string \<rightharpoonup> pyval"
type_synonym event = "string \<times> payload"
type_synonym telemetry = "event \<Rightarrow> exn option"
type_synonym 'a outcome = "event list \<times> (exn + 'a)"

subsection \<open>Construction\<close>

text \<open>
  \<open>HaystackError.__init__\<close>. The payload holds the message only when
  \<open>send_message_in_event\<close> is true. The event is sent before anything is stored, and
  the call stands outside any \<open>try\<close>: an exception of \<open>send_custom_event\<close> ends the
  constructor. \<open>message\<close> is stored only when it is truthy. The parameter \<open>docs_link\<close> is
  not read: the attribute \<open>docs_link\<close> is set to \<open>None\<close>.
\<close>

definition HaystackError_init ::
  "telemetry \<Rightarrow> exc \<Rightarrow> string option \<Rightarrow> string option arg \<Rightarrow> bool arg \<Rightarrow> exc outcome" where
  "HaystackError_init send_custom_event self message docs_link send_message_in_event =
     (let payload = (if arg_or send_message_in_event True
                     then [''message'' \<mapsto> py_opt_str message] else Map.empty);
          event = (class_name (cls self) @ '' raised'', payload)
      in case send_custom_event event of
           Some e \<Rightarrow> ([event], Inl e)
         | None \<Rightarrow>
             (let self1 = (if truthy (py_opt_str message)
                           then setattr self ''message'' (py_opt_str message) else self)
              in ([event], Inr (setattr self1 ''docs_link'' PyNone))))"

definition ModelingError_init ::
  "telemetry \<Rightarrow> exc \<Rightarrow> string option \<Rightarrow> string option arg \<Rightarrow> exc outcome" where
  "ModelingError_init tel self message docs_link =
     HaystackError_init tel self message
       (Given (arg_or docs_link (Some ''https://haystack.deepset.ai/''))) Omitted"

definition PipelineError_init ::
  "telemetry \<Rightarrow> exc \<Rightarrow> string option \<Rightarrow> string option arg \<Rightarrow> exc outcome" where
  "PipelineError_init tel self message docs_link =
     HaystackError_init tel self message
       (Given (arg_or docs_link (Some ''https://docs.haystack.deepset.ai/docs/pipelines''))) Omitted"

definition PipelineSchemaError_init :: "telemetry \<Rightarrow> exc \<Rightarrow> string option \<Rightarrow> exc outcome" where
  "PipelineSchemaError_init tel self message = PipelineError_init tel self message Omitted"

definition PipelineConfigError_init ::
  "telemetry \<Rightarrow> exc \<Rightarrow> string option \<Rightarrow> string option arg \<Rightarrow> exc outcome" where
  "PipelineConfigError_init tel self message docs_link =
     PipelineError_init tel self message
       (Given (arg_or docs_link
          (Some ''https://docs.haystack.deepset.ai/docs/pipelines#yaml-file-definitions'')))"

definition DocumentStoreError_init ::
  "telemetry \<Rightarrow> exc \<Rightarrow> string option \<Rightarrow> bool arg \<Rightarrow> exc outcome" where
  "DocumentStoreError_init tel self message send_message_in_event =
     HaystackError_init tel self message Omitted (Given (arg_or send_message_in_event False))"

definition FilterError_init :: "telemetry \<Rightarrow> exc \<Rightarrow> string option \<Rightarrow> exc outcome" where
  "FilterError_init tel self message = DocumentStoreError_init tel self message Omitted"

definition PineconeDocumentStoreError_init ::
  "telemetry \<Rightarrow> exc \<Rightarrow> string option \<Rightarrow> exc outcome" where
  "PineconeDocumentStoreError_init tel self message =
     DocumentStoreError_init tel self message Omitted"

definition DuplicateDocumentError_init ::
  "telemetry \<Rightarrow> exc \<Rightarrow> string option \<Rightarrow> exc outcome" where
  "DuplicateDocumentError_init tel self message =
     DocumentStoreError_init tel self message Omitted"

definition NodeError_init ::
  "telemetry \<Rightarrow> exc \<Rightarrow> string option \<Rightarrow> bool arg \<Rightarrow> exc outcome" where
  "NodeError_init tel self message send_message_in_event =
     HaystackError_init tel self message Omitted (Given (arg_or send_message_in_event True))"

definition AudioNodeError_init :: "telemetry \<Rightarrow> exc \<Rightarrow> string option \<Rightarrow> exc outcome" where
  "AudioNodeError_init tel self message = NodeError_init tel self message Omitted"

text \<open>
  \<open>OpenAIError.__init__\<close> and \<open>CohereError.__init__\<close> store \<open>status_code\<close> after the call
  of the parent's \<open>__init__\<close> has returned.
\<close>

definition OpenAIError_init ::
  "telemetry \<Rightarrow> exc \<Rightarrow> string option \<Rightarrow> int option \<Rightarrow> bool arg \<Rightarrow> exc outcome" where
  "OpenAIError_init tel self message status_code send_message_in_event =
     (case NodeError_init tel self message (Given (arg_or send_message_in_event False)) of
        (evs, Inl e) \<Rightarrow> (evs, Inl e)
      | (evs, Inr self1) \<Rightarrow> (evs, Inr (setattr self1 ''status_code'' (py_opt_int status_code))))"

definition OpenAIRateLimitError_init ::
  "telemetry \<Rightarrow> exc \<Rightarrow> string option \<Rightarrow> bool arg \<Rightarrow> exc outcome" where
  "OpenAIRateLimitError_init tel self message send_message_in_event =
     OpenAIError_init tel self message (Some 429) (Given (arg_or send_message_in_event False))"

definition CohereError_init ::
  "telemetry \<Rightarrow> exc \<Rightarrow> string option \<Rightarrow> int option \<Rightarrow> bool arg \<Rightarrow> exc outcome" where
  "CohereError_init tel self message status_code send_message_in_event =
     (case NodeError_init tel self message (Given (arg_or send_message_in_event False)) of
        (evs, Inl e) \<Rightarrow> (evs, Inl e)
      | (evs, Inr self1) \<Rightarrow> (evs, Inr (setattr self1 ''status_code'' (py_opt_int status_code))))"

definition ImageToTextError_init :: "telemetry \<Rightarrow> exc \<Rightarrow> string option \<Rightarrow> exc outcome" where
  "ImageToTextError_init tel self message = NodeError_init tel self message Omitted"

text \<open>
  A constructor call, with the arguments its class accepts. \<open>message\<close> and \<open>status_code\<close>
  default to \<open>None\<close>, as does the \<open>docs_link\<close> of \<open>HaystackError\<close>: leaving them out and
  passing \<open>None\<close> are the same call. Where the default is another value the argument is
  an \<open>arg\<close>.
\<close>

datatype call =
    New_HaystackError "string option" "string option" "bool arg"
  | New_ModelingError "string option" "string option arg"
  | New_PipelineError "string option" "string option arg"
  | New_PipelineSchemaError "string option"
  | New_PipelineConfigError "string option" "string option arg"
  | New_DocumentStoreError "string option" "bool arg"
  | New_FilterError "string option"
  | New_PineconeDocumentStoreError "string option"
  | New_DuplicateDocumentError "string option"
  | New_NodeError "string option" "bool arg"
  | New_AudioNodeError "string option"
  | New_OpenAIError "string option" "int option" "bool arg"
  | New_OpenAIRateLimitError "string option" "bool arg"
  | New_CohereError "string option" "int option" "bool arg"
  | New_ImageToTextError "string option"

fun kind_of :: "call \<Rightarrow> kind" where
  "kind_of (New_HaystackError m d s) = HaystackError"
| "kind_of (New_ModelingError m d) = ModelingError"
| "kind_of (New_PipelineError m d) = PipelineError"
| "kind_of (New_PipelineSchemaError m) = PipelineSchemaError"
| "kind_of (New_PipelineConfigError m d) = PipelineConfigError"
| "kind_of (New_DocumentStoreError m s) = DocumentStoreError"
| "kind_of (New_FilterError m) = FilterError"
| "kind_of (New_PineconeDocumentStoreError m) = PineconeDocumentStoreError"
| "kind_of (New_DuplicateDocumentError m) = DuplicateDocumentError"
| "kind_of (New_NodeError m s) = NodeError"
| "kind_of (New_AudioNodeError m) = AudioNodeError"
| "kind_of (New_OpenAIError m c s) = OpenAIError"
| "kind_of (New_OpenAIRateLimitError m s) = OpenAIRateLimitError"
| "kind_of (New_CohereError m c s) = CohereError"
| "kind_of (New_ImageToTextError m) = ImageToTextError"

fun message_of :: "call \<Rightarrow> string option" where
  "message_of (New_HaystackError m d s) = m"
| "message_of (New_ModelingError m d) = m"
| "message_of (New_PipelineError m d) = m"
| "message_of (New_PipelineSchemaError m) = m"
| "message_of (New_PipelineConfigError m d) = m"
| "message_of (New_DocumentStoreError m s) = m"
| "message_of (New_FilterError m) = m"
| "message_of (New_PineconeDocumentStoreError m) = m"
| "message_of (New_DuplicateDocumentError m) = m"
| "message_of (New_NodeError m s) = m"
| "message_of (New_AudioNodeError m) = m"
| "message_of (New_OpenAIError m c s) = m"
| "message_of (New_OpenAIRateLimitError m s) = m"
| "message_of (New_CohereError m c s) = m"
| "message_of (New_ImageToTextError m) = m"


text \<open>
  Calling a class: \<open>__new__\<close> allocates the object, the \<open>__init__\<close> of the class fills it,
  and the object is the value of the call unless \<open>__init__\<close> raised.
\<close>

fun new :: "telemetry \<Rightarrow> call \<Rightarrow> exc outcome" where
  "new tel (New_HaystackError m d s) = HaystackError_init tel (alloc HaystackError) m (Given d) s"
| "new tel (New_ModelingError m d) = ModelingError_init tel (alloc ModelingError) m d"
| "new tel (New_PipelineError m d) = PipelineError_init tel (alloc PipelineError) m d"
| "new tel (New_PipelineSchemaError m) =
     PipelineSchemaError_init tel (alloc PipelineSchemaError) m"
| "new tel (New_PipelineConfigError m d) =
     PipelineConfigError_init tel (alloc PipelineConfigError) m d"
| "new tel (New_DocumentStoreError m s) =
     DocumentStoreError_init tel (alloc DocumentStoreError) m s"
| "new tel (New_FilterError m) = FilterError_init tel (alloc FilterError) m"
| "new tel (New_PineconeDocumentStoreError m) =
     PineconeDocumentStoreError_init tel (alloc PineconeDocumentStoreError) m"
| "new tel (New_DuplicateDocumentError m) =
     DuplicateDocumentError_init tel (alloc DuplicateDocumentError) m"
| "new tel (New_NodeError m s) = NodeError_init tel (alloc NodeError) m s"
| "new tel (New_AudioNodeError m) = AudioNodeError_init tel (alloc AudioNodeError) m"
| "new tel (New_OpenAIError m c s) = OpenAIError_init tel (alloc OpenAIError) m c s"
| "new tel (New_OpenAIRateLimitError m s) =
     OpenAIRateLimitError_init tel (alloc OpenAIRateLimitError) m s"
| "new tel (New_CohereError m c s) = CohereError_init tel (alloc CohereError) m c s"
| "new tel (New_ImageToTextError m) = ImageToTextError_init tel (alloc ImageToTextError) m"

subsection \<open>Attribute access\<close>

text \<open>
  \<open>e.attr\<close> looks in the instance dictionary first. When the name is not there and the
  class defines \<open>__getattr__\<close> (every class of the module inherits it from
  \<open>HaystackError\<close>; the built-in classes have none), the value of \<open>e.attr\<close> is what
  \<open>__getattr__\<close> returns.

  \<open>HaystackError.__getattr__\<close> evaluates \<open>getattr(self.__cause__, attr)\<close> and has no
  \<open>return\<close> statement: an \<open>AttributeError\<close> of the inner lookup leaves the method, and
  when the inner lookup succeeds the method returns \<open>None\<close>. A cause of \<open>None\<close> has no
  attribute of the names considered here.

  Names that the interpreter resolves on the built-in classes themselves (\<open>args\<close>,
  \<open>__cause__\<close>, \<open>__class__\<close>, \<open>__bool__\<close> of \<open>None\<close> and the like) are outside the model:
  \<open>attr\<close> ranges over the other names.
\<close>

fun py_getattr :: "exc \<Rightarrow> string \<Rightarrow> exn + pyval"
  and HaystackError_getattr :: "exc \<Rightarrow> string \<Rightarrow> exn + pyval" where
  "py_getattr (Exc c d cs) attr =
     (case d attr of
        Some v \<Rightarrow> Inr v
      | None \<Rightarrow>
          (case c of
             Taxonomy k \<Rightarrow> HaystackError_getattr (Exc c d cs) attr
           | _ \<Rightarrow> Inl AttributeError))"
| "HaystackError_getattr (Exc c d cs) attr =
     (case cs of
        None \<Rightarrow> Inl AttributeError
      | Some e \<Rightarrow>
          (case py_getattr e attr of
             Inl x \<Rightarrow> Inl x
           | Inr v \<Rightarrow> Inr PyNone))"

subsection \<open>Rendering\<close>

text \<open>Decimal digits of a natural number, for an integer inside an f-string.\<close>

fun dec_nat :: "nat \<Rightarrow> string" where
  "dec_nat n =
     (if n < 10 then [char_of (48 + n)]
      else dec_nat (n div 10) @ [char_of (48 + n mod 10)])"

declare dec_nat.simps [simp del]

text \<open>\<open>f"{v}"\<close>: the text of a value.\<close>

fun py_format :: "pyval \<Rightarrow> string" where
  "py_format PyNone = ''None''"
| "py_format (PyStr s) = s"
| "py_format (PyInt i) = (if i < 0 then ''-'' @ dec_nat (nat (- i)) else dec_nat (nat i))"

text \<open>\<open>a + b\<close> where \<open>b\<close> is a string: only a string on the left has a sum with it.\<close>

fun py_add_str :: "pyval \<Rightarrow> string \<Rightarrow> exn + pyval" where
  "py_add_str (PyStr s) t = Inr (PyStr (s @ t))"
| "py_add_str PyNone t = Inl TypeError"
| "py_add_str (PyInt i) t = Inl TypeError"

text \<open>
  \<open>HaystackError.__str__\<close>. Both \<open>self.docs_link\<close> and \<open>self.message\<close> are attribute
  reads, so either may raise or come from \<open>__getattr__\<close>.
\<close>

definition HaystackError_str :: "exc \<Rightarrow> exn + pyval" where
  "HaystackError_str self =
     (case py_getattr self ''docs_link'' of
        Inl e \<Rightarrow> Inl e
      | Inr docs_link \<Rightarrow>
          if truthy docs_link then
            (let docs_message =
                   [CHR 0x0A, CHR 0x0A] @ ''Check out the documentation at '' @ py_format docs_link
             in case py_getattr self ''message'' of
                  Inl e \<Rightarrow> Inl e
                | Inr message \<Rightarrow> py_add_str message docs_message)
          else py_getattr self ''message'')"

text \<open>
  \<open>str(e)\<close> for an instance of a class of the module: the interpreter calls \<open>__str__\<close>
  and raises \<open>TypeError\<close> when the method returns something that is not a string.
\<close>

definition py_str :: "exc \<Rightarrow> exn + string" where
  "py_str self =
     (case HaystackError_str self of
        Inl e \<Rightarrow> Inl e
      | Inr (PyStr s) \<Rightarrow> Inr s
      | Inr _ \<Rightarrow> Inl TypeError)"

text \<open>\<open>HaystackError.__repr__\<close> returns \<open>str(self)\<close>.\<close>

definition HaystackError_repr :: "exc \<Rightarrow> exn + string" where
  "HaystackError_repr self = py_str self"

text \<open>\<open>isinstance(e, c)\<close>, the test an \<open>except c\<close> clause makes.\<close>

definition isinstance :: "exc \<Rightarrow> pyclass \<Rightarrow> bool" where
  "isinstance e c = issubclass (cls e) c"

subsection \<open>Sample collaborators\<close>

text \<open>Two behaviours of \<open>send_custom_event\<close>: one that always returns, one that always raises.\<close>

definition telemetry_ok :: telemetry where
  "telemetry_ok event = None"

definition telemetry_down :: telemetry where
  "telemetry_down event = Some (Raised ''ConnectionError'')"

section \<open>Properties\<close>

subsection \<open>The shape of a construction\<close>

lemmas subclass_init_defs =
  ModelingError_init_def PipelineError_init_def
  PipelineSchemaError_init_def PipelineConfigError_init_def DocumentStoreError_init_def
  FilterError_init_def PineconeDocumentStoreError_init_def DuplicateDocumentError_init_def
  NodeError_init_def AudioNodeError_init_def OpenAIError_init_def
  OpenAIRateLimitError_init_def CohereError_init_def ImageToTextError_init_def

text \<open>
  \<open>HaystackError.__init__\<close> sends one event; its result is the exception of the
  collaborator, or the object with \<open>docs_link\<close> set to \<open>None\<close> and \<open>message\<close> stored when
  truthy.
\<close>

lemma HaystackError_init_eq:
  "HaystackError_init tel self m d s =
     ([(class_name (cls self) @ '' raised'',
        if arg_or s True then [''message'' \<mapsto> py_opt_str m] else Map.empty)],
      case tel (class_name (cls self) @ '' raised'',
                if arg_or s True then [''message'' \<mapsto> py_opt_str m] else Map.empty) of
        Some e \<Rightarrow> Inl e
      | None \<Rightarrow>
          Inr (setattr (if truthy (py_opt_str m) then setattr self ''message'' (py_opt_str m)
                        else self) ''docs_link'' PyNone))"
  unfolding HaystackError_init_def Let_def
  by (cases "tel (class_name (cls self) @ '' raised'',
                if arg_or s True then [''message'' \<mapsto> py_opt_str m] else Map.empty)")
     simp_all

lemma HaystackError_init_events:
  "fst (HaystackError_init tel self m d s) =
     [(class_name (cls self) @ '' raised'',
       if arg_or s True then [''message'' \<mapsto> py_opt_str m] else Map.empty)]"
  by (simp add: HaystackError_init_eq)

lemma HaystackError_init_outcome:
  "\<exists>ev r. HaystackError_init tel self m d s =
     ([ev], case tel ev of Some e \<Rightarrow> Inl e | None \<Rightarrow> Inr r)"
  using HaystackError_init_eq by blast

text \<open>Storing one more attribute after the parent's \<open>__init__\<close> keeps the events.\<close>

lemma store_after_events:
  "fst (case x of (evs, Inl e) \<Rightarrow> (evs, Inl e) | (evs, Inr r) \<Rightarrow> (evs, Inr (f r))) = fst x"
  by (cases x) (simp split: sum.split)

lemma store_after_outcome:
  assumes "x = ([ev], case t of Some e \<Rightarrow> Inl e | None \<Rightarrow> Inr r)"
  shows "(case x of (evs, Inl e) \<Rightarrow> (evs, Inl e) | (evs, Inr r') \<Rightarrow> (evs, Inr (f r'))) =
           ([ev], case t of Some e \<Rightarrow> Inl e | None \<Rightarrow> Inr (f r))"
  using assms by (cases t) simp_all

lemma store_after_result:
  "snd (case x of (evs, Inl e) \<Rightarrow> (evs, Inl e) | (evs, Inr r) \<Rightarrow> (evs, Inr (f r))) = Inr r'
     \<Longrightarrow> \<exists>r0. snd x = Inr r0 \<and> r' = f r0"
  by (cases x) (auto split: sum.splits)

lemma new_outcome:
  "\<exists>ev r. new tel c = ([ev], case tel ev of Some e \<Rightarrow> Inl e | None \<Rightarrow> Inr r)"
proof (cases c)
  case (New_OpenAIError m code s)
  obtain ev r where parent:
    "NodeError_init tel (alloc OpenAIError) m (Given (arg_or s False)) =
       ([ev], case tel ev of Some e \<Rightarrow> Inl e | None \<Rightarrow> Inr r)"
    unfolding NodeError_init_def using HaystackError_init_outcome by blast
  have "new tel c =
      ([ev], case tel ev of
               Some e \<Rightarrow> Inl e
             | None \<Rightarrow> Inr (setattr r ''status_code'' (py_opt_int code)))"
    unfolding New_OpenAIError new.simps OpenAIError_init_def
    by (rule store_after_outcome [OF parent])
  then show ?thesis by blast
next
  case (New_OpenAIRateLimitError m s)
  obtain ev r where parent:
    "NodeError_init tel (alloc OpenAIRateLimitError) m
        (Given (arg_or (Given (arg_or s False)) False)) =
       ([ev], case tel ev of Some e \<Rightarrow> Inl e | None \<Rightarrow> Inr r)"
    unfolding NodeError_init_def using HaystackError_init_outcome by blast
  have "new tel c =
      ([ev], case tel ev of
               Some e \<Rightarrow> Inl e
             | None \<Rightarrow> Inr (setattr r ''status_code'' (py_opt_int (Some 429))))"
    unfolding New_OpenAIRateLimitError new.simps OpenAIRateLimitError_init_def
      OpenAIError_init_def
    by (rule store_after_outcome [OF parent])
  then show ?thesis by blast
next
  case (New_CohereError m code s)
  obtain ev r where parent:
    "NodeError_init tel (alloc CohereError) m (Given (arg_or s False)) =
       ([ev], case tel ev of Some e \<Rightarrow> Inl e | None \<Rightarrow> Inr r)"
    unfolding NodeError_init_def using HaystackError_init_outcome by blast
  have "new tel c =
      ([ev], case tel ev of
               Some e \<Rightarrow> Inl e
             | None \<Rightarrow> Inr (setattr r ''status_code'' (py_opt_int code)))"
    unfolding New_CohereError new.simps CohereError_init_def
    by (rule store_after_outcome [OF parent])
  then show ?thesis by blast
qed (simp_all only: new.simps subclass_init_defs HaystackError_init_outcome)


lemma HaystackError_init_cause:
  "snd (HaystackError_init tel self m d s) = Inr r \<Longrightarrow> cause r = cause self"
  by (auto simp: HaystackError_init_eq setattr_def split: option.splits if_splits)

lemma HaystackError_init_docs_link:
  "snd (HaystackError_init tel self m d s) = Inr r \<Longrightarrow> dict r ''docs_link'' = Some PyNone"
  by (auto simp: HaystackError_init_eq setattr_def split: option.splits if_splits)

lemma HaystackError_init_message:
  "snd (HaystackError_init tel self m d s) = Inr r \<Longrightarrow>
     dict r ''message'' =
       (if truthy (py_opt_str m) then Some (py_opt_str m) else dict self ''message'')"
  by (auto simp: HaystackError_init_eq setattr_def split: option.splits if_splits)


lemma new_cause: "snd (new tel c) = Inr r \<Longrightarrow> cause r = None"
  by (cases c)
     (auto simp: subclass_init_defs alloc_def setattr_def
           dest!: store_after_result HaystackError_init_cause)

lemma new_docs_link: "snd (new tel c) = Inr r \<Longrightarrow> dict r ''docs_link'' = Some PyNone"
  by (cases c)
     (auto simp: subclass_init_defs alloc_def setattr_def
           dest!: store_after_result HaystackError_init_docs_link)

lemma new_message:
  "snd (new tel c) = Inr r \<Longrightarrow>
     dict r ''message'' =
       (if truthy (py_opt_str (message_of c)) then Some (py_opt_str (message_of c)) else None)"
  by (cases c)
     (auto simp: subclass_init_defs alloc_def setattr_def
           dest!: store_after_result HaystackError_init_message)

subsection \<open>Attribute access and rendering\<close>

lemma getattr_own: "dict r attr = Some v \<Longrightarrow> py_getattr r attr = Inr v"
  by (cases r) simp

lemma getattr_falls_through:
  "dict r attr = None \<Longrightarrow> cls r = Taxonomy k \<Longrightarrow>
     py_getattr r attr = HaystackError_getattr r attr"
  by (cases r) simp

lemma getattr_no_cause:
  "dict r attr = None \<Longrightarrow> cause r = None \<Longrightarrow> py_getattr r attr = Inl AttributeError"
  by (cases r) (auto split: pyclass.splits)


lemma str_without_docs_link:
  "dict r ''docs_link'' = Some PyNone \<Longrightarrow>
     py_str r = (case py_getattr r ''message'' of
                   Inl e \<Rightarrow> Inl e
                 | Inr (PyStr s) \<Rightarrow> Inr s
                 | Inr _ \<Rightarrow> Inl TypeError)"
  by (simp add: py_str_def HaystackError_str_def getattr_own)

text \<open>
  A freshly constructed object with a non-empty message renders as the message alone,
  whatever \<open>docs_link\<close> the call passed or its class defaults to.
\<close>

lemma str_of_new:
  assumes "snd (new tel c) = Inr r" and "message_of c = Some m" and "m \<noteq> []"
  shows "py_str r = Inr m"
proof -
  have "dict r ''message'' = Some (PyStr m)"
    using new_message [OF assms(1)] assms(2,3) by simp
  then have "py_getattr r ''message'' = Inr (PyStr m)" by (rule getattr_own)
  moreover have "dict r ''docs_link'' = Some PyNone" using assms(1) by (rule new_docs_link)
  ultimately show ?thesis by (simp add: str_without_docs_link)
qed


section \<open>The claims\<close>

text \<open>
  C1. The specification says that a \<open>PipelineConfigError\<close> built with the message
  \<open>missing field 'nodes'\<close> and no explicit \<open>docs_link\<close> renders as the message, a blank
  line and \<open>Check out the documentation at\<close> followed by the YAML documentation link.
  The code stores \<open>None\<close> in \<open>docs_link\<close> whatever it is given, so the object renders as
  the message alone: the evaluation below is what \<open>str\<close> returns for that call.
\<close>

theorem PipelineConfigError_renders_message_only:
  "snd (new telemetry_ok
          (New_PipelineConfigError (Some (''missing field 'nodes'' @ [CHR 0x27])) Omitted))
     = Inr (Exc (Taxonomy PipelineConfigError)
              [''message'' \<mapsto> PyStr (''missing field 'nodes'' @ [CHR 0x27]),
               ''docs_link'' \<mapsto> PyNone] None)
   \<and> py_str (Exc (Taxonomy PipelineConfigError)
              [''message'' \<mapsto> PyStr (''missing field 'nodes'' @ [CHR 0x27]),
               ''docs_link'' \<mapsto> PyNone] None)
     = Inr (''missing field 'nodes'' @ [CHR 0x27])
   \<and> py_str (Exc (Taxonomy PipelineConfigError)
              [''message'' \<mapsto> PyStr (''missing field 'nodes'' @ [CHR 0x27]),
               ''docs_link'' \<mapsto> PyNone] None)
     \<noteq> Inr (''missing field 'nodes'' @ [CHR 0x27] @ [CHR 0x0A, CHR 0x0A] @
            ''Check out the documentation at '' @
            ''https://docs.haystack.deepset.ai/docs/pipelines#yaml-file-definitions'')"
  by (simp add: PipelineConfigError_init_def PipelineError_init_def HaystackError_init_eq
        alloc_def setattr_def telemetry_ok_def py_str_def HaystackError_str_def)

text \<open>
  C2. Every constructor call, of every class and with every combination of arguments,
  sends exactly one telemetry event, and its name is the name of the concrete class
  followed by \<open>raised\<close>. The events are those of the call itself: nothing depends on what
  is done with the object afterwards, and the event is sent also when the collaborator
  raises.
\<close>

theorem construction_sends_one_event:
  "\<exists>payload. fst (new tel c) = [(kind_name (kind_of c) @ '' raised'', payload)]"
  by (cases c)
     (simp_all add: subclass_init_defs HaystackError_init_events store_after_events alloc_def)

text \<open>
  C3. With \<open>send_message_in_event\<close> left at its default, the payload is empty for
  \<open>DocumentStoreError\<close>, \<open>FilterError\<close>, \<open>PineconeDocumentStoreError\<close>,
  \<open>DuplicateDocumentError\<close>, \<open>OpenAIError\<close>, \<open>OpenAIRateLimitError\<close> and \<open>CohereError\<close>,
  whatever the message (so two calls that differ in the message send the same payload),
  and it is \<open>{"message": message}\<close> for the eight other classes.
\<close>

theorem payload_by_default_flag:
  "map snd (fst (new tel (New_DocumentStoreError m Omitted))) = [Map.empty]
 \<and> map snd (fst (new tel (New_FilterError m))) = [Map.empty]
 \<and> map snd (fst (new tel (New_PineconeDocumentStoreError m))) = [Map.empty]
 \<and> map snd (fst (new tel (New_DuplicateDocumentError m))) = [Map.empty]
 \<and> map snd (fst (new tel (New_OpenAIError m code Omitted))) = [Map.empty]
 \<and> map snd (fst (new tel (New_OpenAIRateLimitError m Omitted))) = [Map.empty]
 \<and> map snd (fst (new tel (New_CohereError m code Omitted))) = [Map.empty]
 \<and> map snd (fst (new tel (New_HaystackError m d Omitted))) = [[''message'' \<mapsto> py_opt_str m]]
 \<and> map snd (fst (new tel (New_ModelingError m l))) = [[''message'' \<mapsto> py_opt_str m]]
 \<and> map snd (fst (new tel (New_PipelineError m l))) = [[''message'' \<mapsto> py_opt_str m]]
 \<and> map snd (fst (new tel (New_PipelineSchemaError m))) = [[''message'' \<mapsto> py_opt_str m]]
 \<and> map snd (fst (new tel (New_PipelineConfigError m l))) = [[''message'' \<mapsto> py_opt_str m]]
 \<and> map snd (fst (new tel (New_NodeError m Omitted))) = [[''message'' \<mapsto> py_opt_str m]]
 \<and> map snd (fst (new tel (New_AudioNodeError m))) = [[''message'' \<mapsto> py_opt_str m]]
 \<and> map snd (fst (new tel (New_ImageToTextError m))) = [[''message'' \<mapsto> py_opt_str m]]"
  by (simp add: subclass_init_defs HaystackError_init_events store_after_events)

text \<open>
  C4. The specification, like the docstring of \<open>HaystackError\<close>, says that reading an
  attribute the object does not hold returns the value the cause has for it. The code's
  \<open>__getattr__\<close> looks the name up on the cause and returns nothing: for a
  \<open>HaystackError\<close> raised from an exception whose \<open>message\<close> is \<open>disk full\<close>, reading
  \<open>message\<close> yields \<open>None\<close>.
\<close>

theorem getattr_drops_cause_value:
  "py_getattr (Exc Exception [''message'' \<mapsto> PyStr ''disk full''] None) ''message''
     = Inr (PyStr ''disk full'')
 \<and> snd (new telemetry_ok (New_HaystackError None None Omitted))
     = Inr (Exc (Taxonomy HaystackError) [''docs_link'' \<mapsto> PyNone] None)
 \<and> py_getattr
       (raise_from (Exc (Taxonomy HaystackError) [''docs_link'' \<mapsto> PyNone] None)
          (Exc Exception [''message'' \<mapsto> PyStr ''disk full''] None)) ''message''
     = Inr PyNone"
  by (simp add: HaystackError_init_eq alloc_def setattr_def telemetry_ok_def raise_from_def)

text \<open>
  C5. The specification says that a failure of the telemetry call never leaves the
  constructor. The constructor calls \<open>send_custom_event\<close> outside any \<open>try\<close>: when the
  collaborator raises, the call of the class ends with that exception and yields no
  object.
\<close>

theorem telemetry_failure_leaves_constructor:
  "new telemetry_down (New_HaystackError (Some ''boom'') None Omitted)
     = ([(''HaystackError raised'', [''message'' \<mapsto> PyStr ''boom''])],
        Inl (Raised ''ConnectionError''))"
  by (simp add: HaystackError_init_eq alloc_def telemetry_down_def)

text \<open>
  C5, as the code has it. For every class and every constructor input: when the
  collaborator raises on the event of the call, the call ends with that very exception;
  when it returns, the call yields the object.
\<close>

theorem telemetry_outcome_decides_construction:
  assumes "fst (new tel c) = [ev]"
  shows "(tel ev = Some e \<longrightarrow> snd (new tel c) = Inl e) \<and>
         (tel ev = None \<longrightarrow> (\<exists>r. snd (new tel c) = Inr r))"
proof -
  obtain ev' r where eq: "new tel c = ([ev'], case tel ev' of Some e \<Rightarrow> Inl e | None \<Rightarrow> Inr r)"
    using new_outcome by blast
  with assms have "ev' = ev" by simp
  with eq show ?thesis by (cases "tel ev") simp_all
qed

theorem telemetry_outcome_decides_construction_witness:
  "fst (new telemetry_down (New_FilterError (Some ''bad filter'')))
     = [(''FilterError raised'', Map.empty)]
 \<and> telemetry_down (''FilterError raised'', Map.empty) = Some (Raised ''ConnectionError'')
 \<and> snd (new telemetry_down (New_FilterError (Some ''bad filter'')))
     = Inl (Raised ''ConnectionError'')
 \<and> fst (new telemetry_ok (New_FilterError (Some ''bad filter'')))
     = [(''FilterError raised'', Map.empty)]
 \<and> telemetry_ok (''FilterError raised'', Map.empty) = None
 \<and> (\<exists>r. snd (new telemetry_ok (New_FilterError (Some ''bad filter''))) = Inr r)"
proof -
  have down: "fst (new telemetry_down (New_FilterError (Some ''bad filter'')))
      = [(''FilterError raised'', Map.empty)]"
    by (simp add: FilterError_init_def DocumentStoreError_init_def HaystackError_init_events
          alloc_def)
  have ok: "fst (new telemetry_ok (New_FilterError (Some ''bad filter'')))
      = [(''FilterError raised'', Map.empty)]"
    by (simp add: FilterError_init_def DocumentStoreError_init_def HaystackError_init_events
          alloc_def)
  show ?thesis
    using down ok
      telemetry_outcome_decides_construction [OF down, of "Raised ''ConnectionError''"]
      telemetry_outcome_decides_construction [OF ok]
    by (simp add: telemetry_down_def telemetry_ok_def)
qed


text \<open>
  C6. Every \<open>OpenAIRateLimitError\<close> that a constructor call yields, whatever the
  message and the send flag, has \<open>status_code\<close> 429.
\<close>

theorem rate_limit_status_code:
  assumes "snd (new tel (New_OpenAIRateLimitError m s)) = Inr r"
  shows "dict r ''status_code'' = Some (PyInt 429) \<and>
         py_getattr r ''status_code'' = Inr (PyInt 429)"
proof -
  from store_after_result
    [OF assms [unfolded new.simps OpenAIRateLimitError_init_def OpenAIError_init_def]]
  obtain r0 where "r = setattr r0 ''status_code'' (py_opt_int (Some 429))"
    by blast
  then have "dict r ''status_code'' = Some (PyInt 429)" by (simp add: setattr_def)
  then show ?thesis by (simp add: getattr_own)
qed

theorem rate_limit_status_code_witness:
  "snd (new telemetry_ok (New_OpenAIRateLimitError (Some ''slow down'') (Given True)))
     = Inr (Exc (Taxonomy OpenAIRateLimitError)
              [''message'' \<mapsto> PyStr ''slow down'', ''docs_link'' \<mapsto> PyNone,
               ''status_code'' \<mapsto> PyInt 429] None)
 \<and> dict (Exc (Taxonomy OpenAIRateLimitError)
              [''message'' \<mapsto> PyStr ''slow down'', ''docs_link'' \<mapsto> PyNone,
               ''status_code'' \<mapsto> PyInt 429] None) ''status_code'' = Some (PyInt 429)
 \<and> py_getattr (Exc (Taxonomy OpenAIRateLimitError)
              [''message'' \<mapsto> PyStr ''slow down'', ''docs_link'' \<mapsto> PyNone,
               ''status_code'' \<mapsto> PyInt 429] None) ''status_code'' = Inr (PyInt 429)"
proof -
  have built:
    "snd (new telemetry_ok (New_OpenAIRateLimitError (Some ''slow down'') (Given True)))
       = Inr (Exc (Taxonomy OpenAIRateLimitError)
                [''message'' \<mapsto> PyStr ''slow down'', ''docs_link'' \<mapsto> PyNone,
                 ''status_code'' \<mapsto> PyInt 429] None)"
    by (simp add: OpenAIRateLimitError_init_def OpenAIError_init_def NodeError_init_def
          HaystackError_init_eq alloc_def setattr_def telemetry_ok_def)
  from rate_limit_status_code [OF built] built show ?thesis by simp
qed

text \<open>
  C7. Every instance of \<open>DuplicateDocumentError\<close>, whatever it holds, is an instance of
  \<open>DocumentStoreError\<close> and an instance of \<open>ValueError\<close>: a handler for either class
  catches it.
\<close>

theorem DuplicateDocumentError_isinstance:
  "isinstance (Exc (Taxonomy DuplicateDocumentError) d c) (Taxonomy DocumentStoreError)
 \<and> isinstance (Exc (Taxonomy DuplicateDocumentError) d c) ValueError"
  by (simp add: isinstance_def issubclass.simps [of "Taxonomy DuplicateDocumentError"]
        issubclass.simps [of ValueError ValueError]
        issubclass.simps [of "Taxonomy DocumentStoreError" "Taxonomy DocumentStoreError"])

text \<open>
  C8. The specification says that rendering an object constructed without a message
  returns some default text. The code has no default: \<open>__str__\<close> reads \<open>self.message\<close>,
  which the constructor did not store, and the read ends in \<open>AttributeError\<close>.
\<close>

theorem str_without_message_example:
  "snd (new telemetry_ok (New_HaystackError None None Omitted))
     = Inr (Exc (Taxonomy HaystackError) [''docs_link'' \<mapsto> PyNone] None)
 \<and> py_str (Exc (Taxonomy HaystackError) [''docs_link'' \<mapsto> PyNone] None)
     = Inl AttributeError"
  by (simp add: HaystackError_init_eq alloc_def setattr_def telemetry_ok_def py_str_def
        HaystackError_str_def)

text \<open>
  C8, as the code has it. For every class: an object constructed without a message,
  and not yet given a cause, fails to render with \<open>AttributeError\<close>.
\<close>

theorem str_without_message_raises:
  assumes "snd (new tel c) = Inr r" and "message_of c = None"
  shows "py_str r = Inl AttributeError"
proof -
  have "dict r ''message'' = None" using new_message [OF assms(1)] assms(2) by simp
  moreover have "cause r = None" using assms(1) by (rule new_cause)
  ultimately have "py_getattr r ''message'' = Inl AttributeError" by (rule getattr_no_cause)
  moreover have "dict r ''docs_link'' = Some PyNone" using assms(1) by (rule new_docs_link)
  ultimately show ?thesis by (simp add: str_without_docs_link)
qed

theorem str_without_message_raises_witness:
  "snd (new telemetry_ok (New_AudioNodeError None))
     = Inr (Exc (Taxonomy AudioNodeError) [''docs_link'' \<mapsto> PyNone] None)
 \<and> message_of (New_AudioNodeError None) = None
 \<and> py_str (Exc (Taxonomy AudioNodeError) [''docs_link'' \<mapsto> PyNone] None)
     = Inl AttributeError"
proof -
  have built: "snd (new telemetry_ok (New_AudioNodeError None))
      = Inr (Exc (Taxonomy AudioNodeError) [''docs_link'' \<mapsto> PyNone] None)"
    by (simp add: AudioNodeError_init_def NodeError_init_def HaystackError_init_eq alloc_def
          setattr_def telemetry_ok_def)
  have none: "message_of (New_AudioNodeError None) = None" by simp
  from str_without_message_raises [OF built none] built show ?thesis by simp
qed

text \<open>
  C9. Whatever class is constructed and whatever \<open>docs_link\<close> the call passes, the
  attribute \<open>docs_link\<close> of the object is \<open>None\<close>: neither the argument nor the default of
  the class is kept.
\<close>

theorem docs_link_never_stored:
  assumes "snd (new tel c) = Inr r"
  shows "dict r ''docs_link'' = Some PyNone \<and> py_getattr r ''docs_link'' = Inr PyNone"
  using new_docs_link [OF assms] by (simp add: getattr_own)

theorem docs_link_never_stored_witness:
  "snd (new telemetry_ok
          (New_PipelineError (Some ''no such node'') (Given (Some ''https://example.org/help''))))
     = Inr (Exc (Taxonomy PipelineError)
              [''message'' \<mapsto> PyStr ''no such node'', ''docs_link'' \<mapsto> PyNone] None)
 \<and> dict (Exc (Taxonomy PipelineError)
              [''message'' \<mapsto> PyStr ''no such node'', ''docs_link'' \<mapsto> PyNone] None)
       ''docs_link'' = Some PyNone
 \<and> py_getattr (Exc (Taxonomy PipelineError)
              [''message'' \<mapsto> PyStr ''no such node'', ''docs_link'' \<mapsto> PyNone] None)
       ''docs_link'' = Inr PyNone"
proof -
  have built:
    "snd (new telemetry_ok
            (New_PipelineError (Some ''no such node'') (Given (Some ''https://example.org/help''))))
       = Inr (Exc (Taxonomy PipelineError)
                [''message'' \<mapsto> PyStr ''no such node'', ''docs_link'' \<mapsto> PyNone] None)"
    by (simp add: PipelineError_init_def HaystackError_init_eq alloc_def setattr_def
          telemetry_ok_def)
  from docs_link_never_stored [OF built] built show ?thesis by simp
qed


text \<open>
  Where the message is reported, the payload of a call with the empty string differs
  from the payload of the call without a message, whatever the collaborator does.
\<close>

lemma empty_message_changes_payload:
  "fst (new tel (New_HaystackError (Some []) d Omitted))
     \<noteq> fst (new tel (New_HaystackError None d Omitted))"
  by (auto simp: HaystackError_init_events dest: map_upd_eqD1)




end
